theory Spec2Isabelle
  imports Main
begin

section \<open>Strings and characters\<close>

text \<open>
  A Python \<^verbatim>\<open>str\<close> is a sequence of code points and \<^verbatim>\<open>len\<close> counts code
  points. It is modelled as a \<^typ>\<open>string\<close>, one \<^typ>\<open>char\<close> per code point, so the
  model covers the code points U+0000 to U+00FF. The three character tests used by
  \<^verbatim>\<open>_validate_password\<close> are those of Python 3 on that range (the Unicode
  properties Uppercase, Lowercase and the digit value).
\<close>

definition ord :: "char \<Rightarrow> nat" where
  "ord c = of_char c"

definition isupper :: "char \<Rightarrow> bool" where
  "isupper c =
     ((0x41 \<le> ord c \<and> ord c \<le> 0x5A) \<or> (0xC0 \<le> ord c \<and> ord c \<le> 0xD6)
      \<or> (0xD8 \<le> ord c \<and> ord c \<le> 0xDE))"

definition islower :: "char \<Rightarrow> bool" where
  "islower c =
     ((0x61 \<le> ord c \<and> ord c \<le> 0x7A) \<or> ord c = 0xAA \<or> ord c = 0xB5 \<or> ord c = 0xBA
      \<or> (0xDF \<le> ord c \<and> ord c \<le> 0xF6) \<or> (0xF8 \<le> ord c \<and> ord c \<le> 0xFF))"

definition isdigit :: "char \<Rightarrow> bool" where
  "isdigit c =
     ((0x30 \<le> ord c \<and> ord c \<le> 0x39) \<or> (0xB2 \<le> ord c \<and> ord c \<le> 0xB3) \<or> ord c = 0xB9)"

section \<open>The regular expressions of the user service\<close>

text \<open>
  The two patterns of \<^verbatim>\<open>UserService\<close> use only anchors, literal characters and
  repeated character classes. A pattern is the list of its atoms, in the order they are
  written; a class is the list of its ranges and single characters.
\<close>

datatype class_item = Range char char | Single char

datatype atom =
    Bol \<comment> \<open>\<^verbatim>\<open>^\<close>\<close>
  | Eol \<comment> \<open>\<^verbatim>\<open>$\<close>\<close>
  | Lit char \<comment> \<open>an escaped or plain character\<close>
  | Rep "class_item list" nat "nat option" \<comment> \<open>\<^verbatim>\<open>[...]{lo,hi}\<close>, \<^verbatim>\<open>[...]{lo,}\<close>, \<^verbatim>\<open>[...]+\<close>\<close>

fun in_item :: "char \<Rightarrow> class_item \<Rightarrow> bool" where
  "in_item c (Range lo hi) = (ord lo \<le> ord c \<and> ord c \<le> ord hi)"
| "in_item c (Single d) = (c = d)"

definition in_class :: "class_item list \<Rightarrow> char \<Rightarrow> bool" where
  "in_class items c = list_ex (in_item c) items"

text \<open>
  \<open>atom_ends a s i\<close> lists the positions at which a match of the atom \<open>a\<close> that starts
  at position \<open>i\<close> of the subject \<open>s\<close> can end, longest first (the repetitions are
  greedy). Without the MULTILINE flag, \<^verbatim>\<open>^\<close> matches at position 0 only, and
  \<^verbatim>\<open>$\<close> matches at the end of the subject and also just before a newline that is
  the last character of the subject.
\<close>

fun atom_ends :: "atom \<Rightarrow> string \<Rightarrow> nat \<Rightarrow> nat list" where
  "atom_ends Bol s i = (if i = 0 then [i] else [])"
| "atom_ends Eol s i =
     (if i = length s \<or> (Suc i = length s \<and> s ! i = CHR 0x0A) then [i] else [])"
| "atom_ends (Lit c) s i = (if i < length s \<and> s ! i = c then [Suc i] else [])"
| "atom_ends (Rep cls lo hi) s i =
     (let run = length (takeWhile (in_class cls) (drop i s));
          top = (case hi of None \<Rightarrow> run | Some h \<Rightarrow> min h run)
      in map (\<lambda>k. i + k) (rev [lo..<Suc top]))"

text \<open>
  The backtracking matcher: the first atom is tried at each of its end positions in
  turn until the rest of the pattern matches from there.
\<close>

fun match_here :: "atom list \<Rightarrow> string \<Rightarrow> nat \<Rightarrow> bool" where
  "match_here [] s i = True"
| "match_here (a # as) s i = list_ex (match_here as s) (atom_ends a s i)"

text \<open>\<^verbatim>\<open>pattern.match(s)\<close>: a match must start at position 0; the result is used only
  for its truth value.\<close>

definition re_match :: "atom list \<Rightarrow> string \<Rightarrow> bool" where
  "re_match p s = match_here p s 0"

text \<open>
  The four bracket expressions of the two patterns: \<^verbatim>\<open>[a-zA-Z0-9._%+-]\<close>,
  \<^verbatim>\<open>[a-zA-Z0-9.-]\<close>, \<^verbatim>\<open>[a-zA-Z]\<close> and \<^verbatim>\<open>[a-zA-Z0-9_]\<close>.
\<close>

definition local_chars :: "class_item list" where
  "local_chars =
     [Range CHR ''a'' CHR ''z'', Range CHR ''A'' CHR ''Z'', Range CHR ''0'' CHR ''9'',
      Single CHR ''.'', Single CHR ''_'', Single CHR ''%'', Single CHR ''+'', Single CHR ''-'']"

definition domain_chars :: "class_item list" where
  "domain_chars =
     [Range CHR ''a'' CHR ''z'', Range CHR ''A'' CHR ''Z'', Range CHR ''0'' CHR ''9'',
      Single CHR ''.'', Single CHR ''-'']"

definition tld_chars :: "class_item list" where
  "tld_chars = [Range CHR ''a'' CHR ''z'', Range CHR ''A'' CHR ''Z'']"

definition word_chars :: "class_item list" where
  "word_chars =
     [Range CHR ''a'' CHR ''z'', Range CHR ''A'' CHR ''Z'', Range CHR ''0'' CHR ''9'',
      Single CHR ''_'']"

text \<open>\<^verbatim>\<open>^[a-zA-Z0-9._%+-]+@[a-zA-Z0-9.-]+\.[a-zA-Z]{2,}$\<close>\<close>

definition EMAIL_REGEX :: "atom list" where
  "EMAIL_REGEX =
     [Bol, Rep local_chars 1 None, Lit CHR ''@'', Rep domain_chars 1 None, Lit CHR ''.'',
      Rep tld_chars 2 None, Eol]"

text \<open>\<^verbatim>\<open>^[a-zA-Z0-9_]{3,30}$\<close>\<close>

definition USERNAME_REGEX :: "atom list" where
  "USERNAME_REGEX = [Bol, Rep word_chars 3 (Some 30), Eol]"

section \<open>The user service\<close>

text \<open>The fields of \<^verbatim>\<open>UserDTO\<close> carry the prefix \<open>dto_\<close>; \<^verbatim>\<open>created_at\<close> is a
  time stamp.\<close>

record UserDTO =
  dto_id :: int
  dto_username :: string
  dto_email :: string
  dto_created_at :: int

text \<open>
  The four exceptions the service raises, with their messages. An exception raised by a
  collaborator is not caught by the service: it is \<open>CollaboratorError\<close>, with the
  collaborator's own description of it.
\<close>

datatype error =
    InvalidUsernameError string
  | InvalidEmailError string
  | WeakPasswordError string
  | UserAlreadyExistsError string
  | CollaboratorError string

definition validate_username :: "string \<Rightarrow> error + unit" where
  "validate_username username =
     (if username = [] then Inl (InvalidUsernameError ''Username is required'')
      else if \<not> re_match USERNAME_REGEX username then
        Inl (InvalidUsernameError
          (''Username must be 3-30 characters and contain only ''
           @ ''letters, numbers, and underscores''))
      else Inr ())"

definition validate_email :: "string \<Rightarrow> error + unit" where
  "validate_email email =
     (if email = [] then Inl (InvalidEmailError ''Email is required'')
      else if \<not> re_match EMAIL_REGEX email then
        Inl (InvalidEmailError (''Invalid email format: '' @ email))
      else Inr ())"

definition validate_password :: "string \<Rightarrow> error + unit" where
  "validate_password password =
     (if length password < 12 then
        Inl (WeakPasswordError ''Password must be at least 12 characters'')
      else if \<not> list_ex isupper password then
        Inl (WeakPasswordError ''Password must contain at least one uppercase letter'')
      else if \<not> list_ex islower password then
        Inl (WeakPasswordError ''Password must contain at least one lowercase letter'')
      else if \<not> list_ex isdigit password then
        Inl (WeakPasswordError ''Password must contain at least one number'')
      else Inr ())"

subsection \<open>Collaborators\<close>

text \<open>
  The repository and the hasher are injected (\<^verbatim>\<open>Protocol\<close> classes): each of their
  methods is a parameter of the model. A method runs in the collaborators' own state
  \<open>'w\<close> (a database, a salt generator), which it may change, and either returns
  (\<open>Inr\<close>) or raises (\<open>Inl\<close>, with a description of the exception).
\<close>

record 'w UserRepository =
  save :: "string \<Rightarrow> string \<Rightarrow> string \<Rightarrow> 'w \<Rightarrow> (string + UserDTO) \<times> 'w"
  find_by_id :: "int \<Rightarrow> 'w \<Rightarrow> (string + UserDTO option) \<times> 'w"
  find_by_email :: "string \<Rightarrow> 'w \<Rightarrow> (string + UserDTO option) \<times> 'w"

record 'w PasswordHasher =
  hash :: "string \<Rightarrow> 'w \<Rightarrow> (string + string) \<times> 'w"
  verify :: "string \<Rightarrow> string \<Rightarrow> 'w \<Rightarrow> (string + bool) \<times> 'w"

record 'w UserService =
  user_repository :: "'w UserRepository"
  password_hasher :: "'w PasswordHasher"

text \<open>
  The service is run in a state made of the collaborators' state and the list of the
  collaborator calls made so far, oldest first, each with its arguments.
\<close>

datatype call =
    Call_save string string string
  | Call_find_by_id int
  | Call_find_by_email string
  | Call_hash string
  | Call_verify string string

type_synonym 'w state = "'w \<times> call list"

definition call_save ::
  "'w UserService \<Rightarrow> string \<Rightarrow> string \<Rightarrow> string \<Rightarrow> 'w state \<Rightarrow> (string + UserDTO) \<times> 'w state"
where
  "call_save self username email password_hash st =
     (case save (user_repository self) username email password_hash (fst st) of
        (r, w) \<Rightarrow> (r, (w, snd st @ [Call_save username email password_hash])))"

definition call_find_by_id ::
  "'w UserService \<Rightarrow> int \<Rightarrow> 'w state \<Rightarrow> (string + UserDTO option) \<times> 'w state"
where
  "call_find_by_id self user_id st =
     (case find_by_id (user_repository self) user_id (fst st) of
        (r, w) \<Rightarrow> (r, (w, snd st @ [Call_find_by_id user_id])))"

definition call_find_by_email ::
  "'w UserService \<Rightarrow> string \<Rightarrow> 'w state \<Rightarrow> (string + UserDTO option) \<times> 'w state"
where
  "call_find_by_email self email st =
     (case find_by_email (user_repository self) email (fst st) of
        (r, w) \<Rightarrow> (r, (w, snd st @ [Call_find_by_email email])))"

definition call_hash ::
  "'w UserService \<Rightarrow> string \<Rightarrow> 'w state \<Rightarrow> (string + string) \<times> 'w state"
where
  "call_hash self password st =
     (case hash (password_hasher self) password (fst st) of
        (r, w) \<Rightarrow> (r, (w, snd st @ [Call_hash password])))"

subsection \<open>The operations\<close>

definition create_user ::
  "'w UserService \<Rightarrow> string \<Rightarrow> string \<Rightarrow> string \<Rightarrow> 'w state \<Rightarrow> (error + UserDTO) \<times> 'w state"
where
  "create_user self username email password st =
     (case validate_username username of
        Inl e \<Rightarrow> (Inl e, st)
      | Inr _ \<Rightarrow>
     (case validate_email email of
        Inl e \<Rightarrow> (Inl e, st)
      | Inr _ \<Rightarrow>
     (case validate_password password of
        Inl e \<Rightarrow> (Inl e, st)
      | Inr _ \<Rightarrow>
     (case call_find_by_email self email st of
        (Inl x, st1) \<Rightarrow> (Inl (CollaboratorError x), st1)
      | (Inr existing_user, st1) \<Rightarrow>
          if existing_user \<noteq> None then
            (Inl (UserAlreadyExistsError (''User with email '' @ email @ '' already exists'')),
             st1)
          else
     (case call_hash self password st1 of
        (Inl x, st2) \<Rightarrow> (Inl (CollaboratorError x), st2)
      | (Inr password_hash, st2) \<Rightarrow>
     (case call_save self username email password_hash st2 of
        (Inl x, st3) \<Rightarrow> (Inl (CollaboratorError x), st3)
      | (Inr user, st3) \<Rightarrow> (Inr user, st3)))))))"

definition authenticate ::
  "'w UserService \<Rightarrow> string \<Rightarrow> string \<Rightarrow> 'w state \<Rightarrow> (error + UserDTO option) \<times> 'w state"
where
  "authenticate self email password st =
     (case call_find_by_email self email st of
        (Inl x, st1) \<Rightarrow> (Inl (CollaboratorError x), st1)
      | (Inr user, st1) \<Rightarrow> if user = None then (Inr None, st1) else (Inr user, st1))"

definition get_user ::
  "'w UserService \<Rightarrow> int \<Rightarrow> 'w state \<Rightarrow> (error + UserDTO option) \<times> 'w state"
where
  "get_user self user_id st =
     (case call_find_by_id self user_id st of
        (Inl x, st1) \<Rightarrow> (Inl (CollaboratorError x), st1)
      | (Inr user, st1) \<Rightarrow> (Inr user, st1))"

subsection \<open>The collaborators of the unit tests\<close>

text \<open>
  The fixtures of \<^verbatim>\<open>test_user_service.py\<close>: a repository whose three methods return
  the values a test has set, and a hasher whose \<^verbatim>\<open>hash\<close> returns
  \<^verbatim>\<open>"hashed_password_123"\<close>. They have no state of their own.
\<close>

definition mock_repository ::
  "UserDTO \<Rightarrow> UserDTO option \<Rightarrow> UserDTO option \<Rightarrow> unit UserRepository"
where
  "mock_repository saved by_id by_email =
     \<lparr>save = (\<lambda>username email password_hash w. (Inr saved, w)),
      find_by_id = (\<lambda>user_id w. (Inr by_id, w)),
      find_by_email = (\<lambda>email w. (Inr by_email, w))\<rparr>"

definition mock_hasher :: "unit PasswordHasher" where
  "mock_hasher =
     \<lparr>hash = (\<lambda>password w. (Inr ''hashed_password_123'', w)),
      verify = (\<lambda>password hashed w. (Inr True, w))\<rparr>"

definition user_service :: "unit UserRepository \<Rightarrow> unit PasswordHasher \<Rightarrow> unit UserService" where
  "user_service mock_repo mock_hash = \<lparr>user_repository = mock_repo, password_hasher = mock_hash\<rparr>"

definition expected_user :: UserDTO where
  "expected_user =
     \<lparr>dto_id = 1, dto_username = ''johndoe'', dto_email = ''john@example.com'',
      dto_created_at = 0\<rparr>"

section \<open>The token service\<close>

text \<open>
  Times are whole seconds: a \<^verbatim>\<open>datetime\<close> is the number of seconds since the epoch
  and a \<^verbatim>\<open>timedelta\<close> a number of seconds. Every function that reads the clock takes
  the time \<open>now\<close> of the call as a parameter; the clock reads of one call are one
  instant.
\<close>

definition SECRET_KEY :: string where
  "SECRET_KEY = ''your-secret-key-change-in-production''"

definition ALGORITHM :: string where
  "ALGORITHM = ''HS256''"

definition ACCESS_TOKEN_EXPIRE_MINUTES :: int where
  "ACCESS_TOKEN_EXPIRE_MINUTES = 15"

definition REFRESH_TOKEN_EXPIRE_DAYS :: int where
  "REFRESH_TOKEN_EXPIRE_DAYS = 7"

definition timedelta_minutes :: "int \<Rightarrow> int" where
  "timedelta_minutes m = m * 60"

definition timedelta_days :: "int \<Rightarrow> int" where
  "timedelta_days d = d * 86400"

text \<open>
  A token payload is a dictionary from claim names to values; \<open>JNone\<close> is Python's
  \<^verbatim>\<open>None\<close>. \<^verbatim>\<open>payload.get(k)\<close> is \<^verbatim>\<open>None\<close> for a missing key.
\<close>

datatype json = JNone | JStr string | JInt int

type_synonym payload = "(string \<times> json) list"

definition dict_get :: "payload \<Rightarrow> string \<Rightarrow> json" where
  "dict_get d k = (case map_of d k of None \<Rightarrow> JNone | Some v \<Rightarrow> v)"

text \<open>
  The \<^verbatim>\<open>jwt\<close> library is imported, not part of the repository: its two functions are
  parameters of the model, over any type \<open>'tok\<close> of serialized tokens.
  \<open>jwt_decode\<close> takes the token, the key, the accepted algorithms, the
  \<^verbatim>\<open>verify_exp\<close> option and the time of the call; it returns the payload or raises.
  Its exceptions are those of the module that \<^verbatim>\<open>import jwt\<close> gives, and any other
  exception (such as a \<^verbatim>\<open>TypeError\<close>) with its name. The module has no attribute
  \<^verbatim>\<open>JWTError\<close>.
\<close>

datatype jwt_exception =
    ExpiredSignatureError
  | DecodeError
  | InvalidSignatureError
  | InvalidAlgorithmError
  | ImmatureSignatureError
  | InvalidIssuedAtError
  | InvalidAudienceError
  | InvalidSubjectError
  | InvalidJTIError
  | OtherException string

record 'tok jwt_module =
  jwt_encode :: "payload \<Rightarrow> string \<Rightarrow> string \<Rightarrow> 'tok"
  jwt_decode :: "'tok \<Rightarrow> string \<Rightarrow> string list \<Rightarrow> bool \<Rightarrow> int \<Rightarrow> jwt_exception + payload"

text \<open>What a request handler raises: an \<^verbatim>\<open>HTTPException\<close> with its status code,
  detail and headers, or an exception it does not catch.\<close>

datatype exn =
    HTTPException nat string "(string \<times> string) list option"
  | Uncaught string

definition HTTP_401_UNAUTHORIZED :: nat where
  "HTTP_401_UNAUTHORIZED = 401"

record 'tok HTTPAuthorizationCredentials =
  scheme :: string
  credentials :: 'tok

record 'tok TokenResponse =
  access_token :: 'tok
  refresh_token' :: 'tok
  token_type :: string
  expires_in :: int

definition create_access_token :: "'tok jwt_module \<Rightarrow> int \<Rightarrow> json \<Rightarrow> 'tok" where
  "create_access_token jwt now user_id =
     (let expire = now + timedelta_minutes ACCESS_TOKEN_EXPIRE_MINUTES;
          payload = [(''sub'', user_id), (''exp'', JInt expire), (''iat'', JInt now),
                     (''type'', JStr ''access'')]
      in jwt_encode jwt payload SECRET_KEY ALGORITHM)"

definition create_refresh_token :: "'tok jwt_module \<Rightarrow> int \<Rightarrow> json \<Rightarrow> 'tok" where
  "create_refresh_token jwt now user_id =
     (let expire = now + timedelta_days REFRESH_TOKEN_EXPIRE_DAYS;
          payload = [(''sub'', user_id), (''exp'', JInt expire), (''iat'', JInt now),
                     (''type'', JStr ''refresh'')]
      in jwt_encode jwt payload SECRET_KEY ALGORITHM)"

text \<open>
  The handlers of \<^verbatim>\<open>decode_token\<close> are tried in order. For an exception that is not an
  \<^verbatim>\<open>ExpiredSignatureError\<close>, the class of the second handler, \<^verbatim>\<open>jwt.JWTError\<close>, is
  looked up in the module, which has no such attribute: the lookup raises
  \<^verbatim>\<open>AttributeError\<close>, and no handler catches it.
\<close>

definition decode_token :: "'tok jwt_module \<Rightarrow> int \<Rightarrow> 'tok \<Rightarrow> exn + payload" where
  "decode_token jwt now token =
     (case jwt_decode jwt token SECRET_KEY [ALGORITHM] True now of
        Inr payload \<Rightarrow> Inr payload
      | Inl ExpiredSignatureError \<Rightarrow>
          Inl (HTTPException HTTP_401_UNAUTHORIZED ''Token has expired''
                 (Some [(''WWW-Authenticate'', ''Bearer'')]))
      | Inl _ \<Rightarrow> Inl (Uncaught ''AttributeError''))"

definition get_current_user ::
  "'tok jwt_module \<Rightarrow> int \<Rightarrow> 'tok HTTPAuthorizationCredentials \<Rightarrow> exn + json"
where
  "get_current_user jwt now auth =
     (let token = credentials auth in
      case decode_token jwt now token of
        Inl e \<Rightarrow> Inl e
      | Inr payload \<Rightarrow>
          if dict_get payload ''type'' \<noteq> JStr ''access'' then
            Inl (HTTPException HTTP_401_UNAUTHORIZED ''Invalid token type'' None)
          else
            let user_id = dict_get payload ''sub'' in
            if user_id = JNone then
              Inl (HTTPException HTTP_401_UNAUTHORIZED ''Could not validate credentials'' None)
            else Inr user_id)"

definition refresh_token ::
  "'tok jwt_module \<Rightarrow> int \<Rightarrow> 'tok HTTPAuthorizationCredentials \<Rightarrow> exn + 'tok TokenResponse"
where
  "refresh_token jwt now auth =
     (let token = credentials auth in
      case decode_token jwt now token of
        Inl e \<Rightarrow> Inl e
      | Inr payload \<Rightarrow>
          if dict_get payload ''type'' \<noteq> JStr ''refresh'' then
            Inl (HTTPException HTTP_401_UNAUTHORIZED ''Invalid token type'' None)
          else
            let user_id = dict_get payload ''sub'';
                new_access_token = create_access_token jwt now user_id
            in Inr \<lparr>access_token = new_access_token, refresh_token' = token,
                    token_type = ''bearer'',
                    expires_in = ACCESS_TOKEN_EXPIRE_MINUTES * 60\<rparr>)"

subsection \<open>A token codec\<close>

text \<open>
  Modelled from the spec: the \<^verbatim>\<open>jwt\<close> library (\<^verbatim>\<open>jwt.encode\<close>,
  \<^verbatim>\<open>jwt.decode\<close>), which the repository imports and does not contain. It is the
  spec's TokenCodec, a symmetric sign and verify primitive keyed by a secret, with the
  checks the imported library (PyJWT 2.10) makes when it decodes. A serialized token
  carries its claims, the key and the algorithm it was signed with, or is malformed; the
  values of the claims are \<^verbatim>\<open>None\<close>, strings and integers. Decoding checks the format,
  the algorithm and the signature, and then the registered claims that are present, in
  this order: \<^verbatim>\<open>iat\<close> (not in the future), \<^verbatim>\<open>nbf\<close> (not in the future),
  \<^verbatim>\<open>exp\<close> (expired from the instant of the claim on), \<^verbatim>\<open>aud\<close> (none is expected),
  \<^verbatim>\<open>sub\<close> and \<^verbatim>\<open>jti\<close> (strings).
\<close>

datatype token = Signed payload string string | Malformed string

text \<open>
  The three time claims are converted with \<^verbatim>\<open>int\<close>: an integer is itself,
  \<^verbatim>\<open>None\<close> raises \<^verbatim>\<open>TypeError\<close>, and a string is parsed as a decimal literal
  (surrounding whitespace, a sign, digits with single underscores between them, at most
  4300 digits) or raises \<^verbatim>\<open>ValueError\<close>.
\<close>

datatype int_error = ValueError | TypeError

definition int_space :: "char \<Rightarrow> bool" where
  "int_space c =
     ((0x09 \<le> ord c \<and> ord c \<le> 0x0D) \<or> ord c = 0x20 \<or> ord c = 0x85 \<or> ord c = 0xA0)"

definition int_digit :: "char \<Rightarrow> bool" where
  "int_digit c = (0x30 \<le> ord c \<and> ord c \<le> 0x39)"

fun double_underscore :: "string \<Rightarrow> bool" where
  "double_underscore (a # b # r) =
     ((a = CHR ''_'' \<and> b = CHR ''_'') \<or> double_underscore (b # r))"
| "double_underscore r = False"

definition digits_value :: "string \<Rightarrow> int" where
  "digits_value ds = foldl (\<lambda>n c. 10 * n + int (ord c - 0x30)) 0 ds"

definition int_of_str :: "string \<Rightarrow> int_error + int" where
  "int_of_str s =
     (let t = dropWhile int_space s;
          negative = (t \<noteq> [] \<and> hd t = CHR ''-'');
          u = (if t \<noteq> [] \<and> (hd t = CHR ''+'' \<or> hd t = CHR ''-'') then tl t else t);
          body = takeWhile (\<lambda>c. int_digit c \<or> c = CHR ''_'') u;
          rest = dropWhile (\<lambda>c. int_digit c \<or> c = CHR ''_'') u;
          ds = filter int_digit body
      in if body = [] \<or> hd body = CHR ''_'' \<or> last body = CHR ''_'' \<or> double_underscore body
            \<or> \<not> list_all int_space rest \<or> 4300 < length ds
         then Inl ValueError
         else Inr (if negative then - digits_value ds else digits_value ds))"

fun py_int :: "json \<Rightarrow> int_error + int" where
  "py_int (JInt n) = Inr n"
| "py_int (JStr s) = int_of_str s"
| "py_int JNone = Inl TypeError"

text \<open>Truth value of a claim: \<^verbatim>\<open>None\<close>, the empty string and 0 are false.\<close>

fun truthy :: "json \<Rightarrow> bool" where
  "truthy JNone = False"
| "truthy (JStr s) = (s \<noteq> [])"
| "truthy (JInt n) = (n \<noteq> 0)"

definition validate_iat :: "payload \<Rightarrow> int \<Rightarrow> jwt_exception + unit" where
  "validate_iat claims now =
     (case py_int (dict_get claims ''iat'') of
        Inl ValueError \<Rightarrow> Inl InvalidIssuedAtError
      | Inl TypeError \<Rightarrow> Inl (OtherException ''TypeError'')
      | Inr iat \<Rightarrow> if iat > now then Inl ImmatureSignatureError else Inr ())"

definition validate_nbf :: "payload \<Rightarrow> int \<Rightarrow> jwt_exception + unit" where
  "validate_nbf claims now =
     (case py_int (dict_get claims ''nbf'') of
        Inl ValueError \<Rightarrow> Inl DecodeError
      | Inl TypeError \<Rightarrow> Inl (OtherException ''TypeError'')
      | Inr nbf \<Rightarrow> if nbf > now then Inl ImmatureSignatureError else Inr ())"

definition validate_exp :: "payload \<Rightarrow> int \<Rightarrow> jwt_exception + unit" where
  "validate_exp claims now =
     (case py_int (dict_get claims ''exp'') of
        Inl ValueError \<Rightarrow> Inl DecodeError
      | Inl TypeError \<Rightarrow> Inl (OtherException ''TypeError'')
      | Inr exp \<Rightarrow> if exp \<le> now then Inl ExpiredSignatureError else Inr ())"

definition validate_aud :: "payload \<Rightarrow> jwt_exception + unit" where
  "validate_aud claims =
     (if map_of claims ''aud'' = None \<or> \<not> truthy (dict_get claims ''aud'') then Inr ()
      else Inl InvalidAudienceError)"

definition validate_sub :: "payload \<Rightarrow> jwt_exception + unit" where
  "validate_sub claims =
     (case map_of claims ''sub'' of
        None \<Rightarrow> Inr ()
      | Some (JStr s) \<Rightarrow> Inr ()
      | Some _ \<Rightarrow> Inl InvalidSubjectError)"

definition validate_jti :: "payload \<Rightarrow> jwt_exception + unit" where
  "validate_jti claims =
     (case map_of claims ''jti'' of
        None \<Rightarrow> Inr ()
      | Some (JStr s) \<Rightarrow> Inr ()
      | Some _ \<Rightarrow> Inl InvalidJTIError)"

text \<open>The checks in sequence: the first that raises ends the validation.\<close>

fun first_failure :: "(jwt_exception + unit) list \<Rightarrow> jwt_exception + unit" where
  "first_failure [] = Inr ()"
| "first_failure (Inl e # checks) = Inl e"
| "first_failure (Inr u # checks) = first_failure checks"

definition validate_claims :: "payload \<Rightarrow> bool \<Rightarrow> int \<Rightarrow> jwt_exception + unit" where
  "validate_claims claims verify_exp now =
     first_failure
       [if map_of claims ''iat'' \<noteq> None then validate_iat claims now else Inr (),
        if map_of claims ''nbf'' \<noteq> None then validate_nbf claims now else Inr (),
        if map_of claims ''exp'' \<noteq> None \<and> verify_exp then validate_exp claims now else Inr (),
        validate_aud claims,
        validate_sub claims,
        validate_jti claims]"

definition spec_encode :: "payload \<Rightarrow> string \<Rightarrow> string \<Rightarrow> token" where
  "spec_encode claims key algorithm = Signed claims key algorithm"

definition spec_decode ::
  "token \<Rightarrow> string \<Rightarrow> string list \<Rightarrow> bool \<Rightarrow> int \<Rightarrow> jwt_exception + payload"
where
  "spec_decode tok key algorithms verify_exp now =
     (if algorithms = [] then Inl DecodeError
      else case tok of
        Malformed _ \<Rightarrow> Inl DecodeError
      | Signed claims k a \<Rightarrow>
          if a \<notin> set algorithms then Inl InvalidAlgorithmError
          else if k \<noteq> key then Inl InvalidSignatureError
          else (case validate_claims claims verify_exp now of
                  Inl e \<Rightarrow> Inl e
                | Inr _ \<Rightarrow> Inr claims))"

definition spec_jwt :: "token jwt_module" where
  "spec_jwt = \<lparr>jwt_encode = spec_encode, jwt_decode = spec_decode\<rparr>"

section \<open>Properties of the user service\<close>

subsection \<open>Evaluation at the inputs of the unit tests\<close>

lemmas regex_eval = re_match_def USERNAME_REGEX_def EMAIL_REGEX_def in_class_def ord_def
  local_chars_def domain_chars_def tld_chars_def word_chars_def

lemmas mock_eval = user_service_def mock_repository_def mock_hasher_def

lemma validate_password_SecurePass123: "validate_password ''SecurePass123'' = Inr ()"
  by (simp add: validate_password_def isupper_def islower_def isdigit_def ord_def)

lemma validate_username_johndoe: "validate_username ''johndoe'' = Inr ()"
  by (simp add: validate_username_def regex_eval)

lemma validate_email_john: "validate_email ''john@example.com'' = Inr ()"
  by (simp add: validate_email_def regex_eval)

lemma validate_username_trailing_newline: "validate_username ''abc\<newline>'' = Inr ()"
  by (simp add: validate_username_def regex_eval)

lemma validate_email_trailing_newline: "validate_email ''john@example.com\<newline>'' = Inr ()"
  by (simp add: validate_email_def regex_eval)

subsection \<open>What the two patterns accept\<close>

text \<open>
  The matcher on a subject split at the current position: each atom consumes a part of
  the rest.
\<close>

lemma takeWhile_length_ge:
  "k \<le> length (takeWhile P xs) \<longleftrightarrow> (\<exists>ys zs. xs = ys @ zs \<and> length ys = k \<and> (\<forall>c \<in> set ys. P c))"
proof
  assume k: "k \<le> length (takeWhile P xs)"
  have "xs = takeWhile P xs @ dropWhile P xs" by simp
  then have "xs = take k (takeWhile P xs) @ (drop k (takeWhile P xs) @ dropWhile P xs)"
    by (metis append_assoc append_take_drop_id)
  moreover have "length (take k (takeWhile P xs)) = k" using k by simp
  moreover have "\<forall>c \<in> set (take k (takeWhile P xs)). P c"
    by (meson in_set_takeD set_takeWhileD)
  ultimately show "\<exists>ys zs. xs = ys @ zs \<and> length ys = k \<and> (\<forall>c \<in> set ys. P c)" by blast
next
  assume "\<exists>ys zs. xs = ys @ zs \<and> length ys = k \<and> (\<forall>c \<in> set ys. P c)"
  then obtain ys zs where "xs = ys @ zs" "length ys = k" "\<forall>c \<in> set ys. P c" by blast
  then show "k \<le> length (takeWhile P xs)" by simp
qed

lemma atom_ends_Rep:
  "j \<in> set (atom_ends (Rep cls lo hi) s i) \<longleftrightarrow>
     (\<exists>k. j = i + k \<and> lo \<le> k \<and> (\<forall>h. hi = Some h \<longrightarrow> k \<le> h)
        \<and> k \<le> length (takeWhile (in_class cls) (drop i s)))"
  by (cases hi) (auto simp del: upt_Suc simp: Let_def intro!: exI [of _ "j - i"])

lemma match_here_Rep:
  "match_here (Rep cls lo hi # p) (pre @ rest) (length pre) \<longleftrightarrow>
     (\<exists>ys zs. rest = ys @ zs \<and> lo \<le> length ys \<and> (\<forall>h. hi = Some h \<longrightarrow> length ys \<le> h)
        \<and> (\<forall>c \<in> set ys. in_class cls c)
        \<and> match_here p ((pre @ ys) @ zs) (length (pre @ ys)))"
  (is "?l \<longleftrightarrow> ?r")
proof
  assume ?l
  then obtain j where j: "j \<in> set (atom_ends (Rep cls lo hi) (pre @ rest) (length pre))"
      "match_here p (pre @ rest) j"
    unfolding match_here.simps list_ex_iff by blast
  from j(1) obtain k where k: "j = length pre + k" "lo \<le> k" "\<forall>h. hi = Some h \<longrightarrow> k \<le> h"
      "k \<le> length (takeWhile (in_class cls) rest)"
    unfolding atom_ends_Rep by auto
  from k(4) obtain ys zs where "rest = ys @ zs" "length ys = k" "\<forall>c \<in> set ys. in_class cls c"
    unfolding takeWhile_length_ge by blast
  with k j(2) show ?r by auto
next
  assume ?r
  then obtain ys zs where r: "rest = ys @ zs" "lo \<le> length ys"
      "\<forall>h. hi = Some h \<longrightarrow> length ys \<le> h" "\<forall>c \<in> set ys. in_class cls c"
      "match_here p ((pre @ ys) @ zs) (length (pre @ ys))" by blast
  then have "length ys \<le> length (takeWhile (in_class cls) rest)"
    unfolding takeWhile_length_ge by blast
  with r have "length pre + length ys \<in> set (atom_ends (Rep cls lo hi) (pre @ rest) (length pre))"
    unfolding atom_ends_Rep by auto
  with r show ?l
    unfolding match_here.simps list_ex_iff by auto
qed

lemma match_here_Lit:
  "match_here (Lit c # p) (pre @ rest) (length pre) \<longleftrightarrow>
     (\<exists>zs. rest = c # zs \<and> match_here p ((pre @ [c]) @ zs) (length (pre @ [c])))"
  by (cases rest) auto

lemma match_here_Eol:
  "match_here (Eol # p) (pre @ rest) (length pre) \<longleftrightarrow>
     (rest = [] \<or> rest = [CHR 0x0A]) \<and> match_here p (pre @ rest) (length pre)"
  by (cases rest) auto

lemma match_here_Bol:
  "match_here (Bol # p) (pre @ rest) (length pre) \<longleftrightarrow>
     pre = [] \<and> match_here p (pre @ rest) (length pre)"
  by auto

lemma re_match_start: "re_match p s = match_here p ([] @ s) (length ([] :: string))"
  by (simp add: re_match_def)

lemmas match_here_steps = match_here_Bol match_here_Rep match_here_Lit match_here_Eol
  match_here.simps(1)

text \<open>
  A match of the username pattern is 3 to 30 characters of the class and then either
  the end of the subject or one newline that ends it; a match of the email pattern is a
  local part, \<^verbatim>\<open>@\<close>, a domain, a dot and at least two letters, and then the same.
\<close>

lemma re_match_USERNAME_REGEX:
  "re_match USERNAME_REGEX s \<longleftrightarrow>
     (\<exists>v r. s = v @ r \<and> 3 \<le> length v \<and> length v \<le> 30
        \<and> (\<forall>c \<in> set v. in_class word_chars c) \<and> (r = [] \<or> r = [CHR 0x0A]))"
  unfolding re_match_start USERNAME_REGEX_def
  by (simp only: match_here_steps) auto

lemma re_match_EMAIL_REGEX:
  "re_match EMAIL_REGEX s \<longleftrightarrow>
     (\<exists>l x t r. s = l @ ''@'' @ x @ ''.'' @ t @ r
        \<and> 1 \<le> length l \<and> (\<forall>c \<in> set l. in_class local_chars c)
        \<and> 1 \<le> length x \<and> (\<forall>c \<in> set x. in_class domain_chars c)
        \<and> 2 \<le> length t \<and> (\<forall>c \<in> set t. in_class tld_chars c)
        \<and> (r = [] \<or> r = [CHR 0x0A]))"
  (is "?l \<longleftrightarrow> ?r")
proof
  assume ?l
  then show ?r
    unfolding re_match_start EMAIL_REGEX_def
    by (simp only: match_here_steps) (elim exE conjE, simp, blast)
next
  assume ?r
  then obtain l x t r where "s = l @ ''@'' @ x @ ''.'' @ t @ r"
      "1 \<le> length l" "\<forall>c \<in> set l. in_class local_chars c"
      "1 \<le> length x" "\<forall>c \<in> set x. in_class domain_chars c"
      "2 \<le> length t" "\<forall>c \<in> set t. in_class tld_chars c"
      "r = [] \<or> r = [CHR 0x0A]" by blast
  then show ?l
    unfolding re_match_start EMAIL_REGEX_def
    by (simp only: match_here_steps) (simp, blast)
qed

lemma validate_username_iff:
  "validate_username u = Inr () \<longleftrightarrow>
     (\<exists>v r. u = v @ r \<and> 3 \<le> length v \<and> length v \<le> 30
        \<and> (\<forall>c \<in> set v. in_class word_chars c) \<and> (r = [] \<or> r = [CHR 0x0A]))"
proof -
  have "re_match USERNAME_REGEX u \<Longrightarrow> u \<noteq> []"
    unfolding re_match_USERNAME_REGEX by auto
  then have "validate_username u = Inr () \<longleftrightarrow> re_match USERNAME_REGEX u"
    by (auto simp: validate_username_def)
  then show ?thesis
    unfolding re_match_USERNAME_REGEX .
qed

lemma validate_email_iff:
  "validate_email e = Inr () \<longleftrightarrow>
     (\<exists>l x t r. e = l @ ''@'' @ x @ ''.'' @ t @ r
        \<and> 1 \<le> length l \<and> (\<forall>c \<in> set l. in_class local_chars c)
        \<and> 1 \<le> length x \<and> (\<forall>c \<in> set x. in_class domain_chars c)
        \<and> 2 \<le> length t \<and> (\<forall>c \<in> set t. in_class tld_chars c)
        \<and> (r = [] \<or> r = [CHR 0x0A]))"
proof -
  have "re_match EMAIL_REGEX e \<Longrightarrow> e \<noteq> []"
    unfolding re_match_EMAIL_REGEX by auto
  then have "validate_email e = Inr () \<longleftrightarrow> re_match EMAIL_REGEX e"
    by (auto simp: validate_email_def)
  then show ?thesis
    unfolding re_match_EMAIL_REGEX .
qed

lemma validate_username_error:
  "validate_username u \<noteq> Inr () \<Longrightarrow> \<exists>msg. validate_username u = Inl (InvalidUsernameError msg)"
  by (simp add: validate_username_def split: if_splits)

lemma validate_email_error:
  "validate_email e \<noteq> Inr () \<Longrightarrow> \<exists>msg. validate_email e = Inl (InvalidEmailError msg)"
  by (simp add: validate_email_def split: if_splits)

text \<open>
  So the validations reject every username and every email that does not end with a
  newline and breaks the rule of its pattern.
\<close>

lemma validate_username_rejects:
  assumes "u = [] \<or> last u \<noteq> CHR 0x0A"
    and "length u < 3 \<or> 30 < length u \<or> (\<exists>c \<in> set u. \<not> in_class word_chars c)"
  shows "\<exists>msg. validate_username u = Inl (InvalidUsernameError msg)"
proof (rule validate_username_error, rule notI)
  assume "validate_username u = Inr ()"
  then obtain v r where vr: "u = v @ r" "3 \<le> length v" "length v \<le> 30"
      "\<forall>c \<in> set v. in_class word_chars c" "r = [] \<or> r = [CHR 0x0A]"
    unfolding validate_username_iff by blast
  from vr(1,5) assms(1) have "u = v" by auto
  with vr assms(2) show False by auto
qed

lemma validate_email_rejects:
  assumes "e = [] \<or> last e \<noteq> CHR 0x0A"
    and "\<not> (\<exists>l x t. e = l @ ''@'' @ x @ ''.'' @ t
            \<and> l \<noteq> [] \<and> (\<forall>c \<in> set l. in_class local_chars c)
            \<and> x \<noteq> [] \<and> (\<forall>c \<in> set x. in_class domain_chars c)
            \<and> 2 \<le> length t \<and> (\<forall>c \<in> set t. in_class tld_chars c))"
  shows "\<exists>msg. validate_email e = Inl (InvalidEmailError msg)"
proof (rule validate_email_error, rule notI)
  assume "validate_email e = Inr ()"
  then obtain l x t r where *: "e = l @ ''@'' @ x @ ''.'' @ t @ r"
      "1 \<le> length l" "\<forall>c \<in> set l. in_class local_chars c"
      "1 \<le> length x" "\<forall>c \<in> set x. in_class domain_chars c"
      "2 \<le> length t" "\<forall>c \<in> set t. in_class tld_chars c" "r = [] \<or> r = [CHR 0x0A]"
    unfolding validate_email_iff by blast
  from *(1,8) assms(1) have "r = []" by auto
  with * have "e = l @ ''@'' @ x @ ''.'' @ t" "l \<noteq> []" "x \<noteq> []" by auto
  with * assms(2) show False by blast
qed

subsection \<open>Creating a user\<close>

text \<open>Once the three validations have passed, \<open>create_user\<close> is its second half.\<close>

lemma create_user_valid:
  assumes "validate_username username = Inr ()" and "validate_email email = Inr ()"
    and "validate_password password = Inr ()"
  shows "create_user self username email password st =
     (case call_find_by_email self email st of
        (Inl x, st1) \<Rightarrow> (Inl (CollaboratorError x), st1)
      | (Inr existing_user, st1) \<Rightarrow>
          if existing_user \<noteq> None then
            (Inl (UserAlreadyExistsError (''User with email '' @ email @ '' already exists'')),
             st1)
          else
     (case call_hash self password st1 of
        (Inl x, st2) \<Rightarrow> (Inl (CollaboratorError x), st2)
      | (Inr password_hash, st2) \<Rightarrow>
     (case call_save self username email password_hash st2 of
        (Inl x, st3) \<Rightarrow> (Inl (CollaboratorError x), st3)
      | (Inr user, st3) \<Rightarrow> (Inr user, st3))))"
  using assms by (simp add: create_user_def)

text \<open>
  C1. For every username, email and password that pass validation, when the repository's
  \<^verbatim>\<open>find_by_email\<close> returns absent (and the hasher and \<^verbatim>\<open>save\<close> return),
  \<open>create_user\<close> makes exactly three collaborator calls, in this order: the lookup, one
  \<^verbatim>\<open>hash\<close> of the plaintext password, and one \<^verbatim>\<open>save\<close> of the username, the
  email and the value the hasher returned (the plaintext is passed to the hasher only).
  It returns the record that \<^verbatim>\<open>save\<close> returned, whatever that record is.
\<close>

theorem create_user_success:
  assumes "validate_username username = Inr ()" and "validate_email email = Inr ()"
    and "validate_password password = Inr ()"
    and "find_by_email (user_repository self) email w = (Inr None, w1)"
    and "hash (password_hasher self) password w1 = (Inr password_hash, w2)"
    and "save (user_repository self) username email password_hash w2 = (Inr user, w3)"
  shows "create_user self username email password (w, calls) =
           (Inr user,
            (w3, calls @ [Call_find_by_email email, Call_hash password,
                          Call_save username email password_hash]))"
  using assms(4-6)
  by (simp add: create_user_valid [OF assms(1-3)] call_find_by_email_def call_hash_def
      call_save_def)

theorem create_user_success_witness:
  "validate_username ''johndoe'' = Inr () \<and> validate_email ''john@example.com'' = Inr ()
   \<and> validate_password ''SecurePass123'' = Inr ()
   \<and> create_user (user_service (mock_repository expected_user None None) mock_hasher)
        ''johndoe'' ''john@example.com'' ''SecurePass123'' ((), []) =
      (Inr expected_user,
       ((), [Call_find_by_email ''john@example.com'', Call_hash ''SecurePass123'',
             Call_save ''johndoe'' ''john@example.com'' ''hashed_password_123'']))"
  using create_user_success [where username = "''johndoe''" and email = "''john@example.com''"
      and password = "''SecurePass123''"
      and self = "user_service (mock_repository expected_user None None) mock_hasher"
      and w = "()" and ?w1.0 = "()" and ?w2.0 = "()" and ?w3.0 = "()"
      and password_hash = "''hashed_password_123''" and user = expected_user and calls = "[]",
      OF validate_username_johndoe validate_email_john validate_password_SecurePass123]
  by (simp add: mock_eval validate_username_johndoe validate_email_john
      validate_password_SecurePass123)

text \<open>
  C7. For every validated input, when the repository's \<^verbatim>\<open>find_by_email\<close> returns an
  existing record, \<open>create_user\<close> fails with \<open>UserAlreadyExistsError\<close>; the lookup is
  the only collaborator call, so neither \<^verbatim>\<open>save\<close> nor the hasher is called, and the
  collaborators' state is the one the lookup left.
\<close>

theorem create_user_existing:
  assumes "validate_username username = Inr ()" and "validate_email email = Inr ()"
    and "validate_password password = Inr ()"
    and "find_by_email (user_repository self) email w = (Inr (Some existing_user), w1)"
  shows "create_user self username email password (w, calls) =
           (Inl (UserAlreadyExistsError (''User with email '' @ email @ '' already exists'')),
            (w1, calls @ [Call_find_by_email email]))"
  using assms(4)
  by (simp add: create_user_valid [OF assms(1-3)] call_find_by_email_def)

theorem create_user_existing_witness:
  "validate_username ''johndoe'' = Inr () \<and> validate_email ''john@example.com'' = Inr ()
   \<and> validate_password ''SecurePass123'' = Inr ()
   \<and> create_user
        (user_service (mock_repository expected_user None (Some expected_user)) mock_hasher)
        ''johndoe'' ''john@example.com'' ''SecurePass123'' ((), []) =
      (Inl (UserAlreadyExistsError ''User with email john@example.com already exists''),
       ((), [Call_find_by_email ''john@example.com'']))"
  using create_user_existing [where username = "''johndoe''" and email = "''john@example.com''"
      and password = "''SecurePass123''"
      and self = "user_service (mock_repository expected_user None (Some expected_user))
                    mock_hasher"
      and w = "()" and ?w1.0 = "()" and existing_user = expected_user and calls = "[]",
      OF validate_username_johndoe validate_email_john validate_password_SecurePass123]
  by (simp add: mock_eval validate_username_johndoe validate_email_john
      validate_password_SecurePass123)

text \<open>
  C6. \<open>create_user\<close> validates the username, then the email, then the password. The
  first validation that fails decides the error, which is of the kind of that field, and
  the state is returned as it was: no collaborator has been called and the collaborators'
  state is untouched.
\<close>

theorem validation_order:
  "(validate_username username = Inl e \<longrightarrow>
      create_user self username email password st = (Inl e, st)
      \<and> (\<exists>msg. e = InvalidUsernameError msg))
   \<and> (validate_username username = Inr () \<and> validate_email email = Inl e \<longrightarrow>
      create_user self username email password st = (Inl e, st)
      \<and> (\<exists>msg. e = InvalidEmailError msg))
   \<and> (validate_username username = Inr () \<and> validate_email email = Inr ()
      \<and> validate_password password = Inl e \<longrightarrow>
      create_user self username email password st = (Inl e, st)
      \<and> (\<exists>msg. e = WeakPasswordError msg))"
  by (auto simp: create_user_def validate_username_def validate_email_def
      validate_password_def split: if_splits)

theorem validation_order_witness:
  "create_user (user_service (mock_repository expected_user None None) mock_hasher)
     ''ab'' ''notanemail'' ''short'' ((), []) =
     (Inl (InvalidUsernameError
        ''Username must be 3-30 characters and contain only letters, numbers, and underscores''),
      ((), []))
   \<and> create_user (user_service (mock_repository expected_user None None) mock_hasher)
     ''johndoe'' ''notanemail'' ''short'' ((), []) =
     (Inl (InvalidEmailError ''Invalid email format: notanemail''), ((), []))
   \<and> create_user (user_service (mock_repository expected_user None None) mock_hasher)
     ''johndoe'' ''john@example.com'' ''short'' ((), []) =
     (Inl (WeakPasswordError ''Password must be at least 12 characters''), ((), []))"
proof -
  have u: "validate_username ''ab'' =
      Inl (InvalidUsernameError
        ''Username must be 3-30 characters and contain only letters, numbers, and underscores'')"
    by (simp add: validate_username_def regex_eval)
  have e: "validate_email ''notanemail'' =
      Inl (InvalidEmailError ''Invalid email format: notanemail'')"
    by (simp add: validate_email_def regex_eval)
  have p: "validate_password ''short'' =
      Inl (WeakPasswordError ''Password must be at least 12 characters'')"
    by (simp add: validate_password_def)
  show ?thesis
    using validation_order [where username = "''ab''" and email = "''notanemail''"
        and password = "''short''" and st = "((), [])"
        and self = "user_service (mock_repository expected_user None None) mock_hasher"
        and e = "InvalidUsernameError
          ''Username must be 3-30 characters and contain only letters, numbers, and underscores''"]
      validation_order [where username = "''johndoe''" and email = "''notanemail''"
        and password = "''short''" and st = "((), [])"
        and self = "user_service (mock_repository expected_user None None) mock_hasher"
        and e = "InvalidEmailError ''Invalid email format: notanemail''"]
      validation_order [where username = "''johndoe''" and email = "''john@example.com''"
        and password = "''short''" and st = "((), [])"
        and self = "user_service (mock_repository expected_user None None) mock_hasher"
        and e = "WeakPasswordError ''Password must be at least 12 characters''"]
      u e p validate_username_johndoe validate_email_john
    by simp
qed

subsection \<open>Password strength\<close>

lemma validate_password_weak:
  assumes "length password < 12 \<or> \<not> (\<exists>c \<in> set password. isupper c)
     \<or> \<not> (\<exists>c \<in> set password. islower c) \<or> \<not> (\<exists>c \<in> set password. isdigit c)"
  shows "\<exists>msg. validate_password password = Inl (WeakPasswordError msg)"
  using assms by (auto simp: validate_password_def list_ex_iff)

lemma create_user_not_weak:
  assumes "validate_username username = Inr ()" and "validate_email email = Inr ()"
    and "validate_password password = Inr ()"
  shows "fst (create_user self username email password st) \<noteq> Inl (WeakPasswordError msg)"
  by (simp add: create_user_valid [OF assms] split: prod.splits sum.splits)

text \<open>
  C4. With a username and an email that pass validation, \<open>create_user\<close> fails with
  \<open>WeakPasswordError\<close>, before any collaborator call, for every password that has fewer
  than 12 characters, or no uppercase letter, or no lowercase letter, or no digit (the
  letters and digits being those of \<^verbatim>\<open>str.isupper\<close>, \<^verbatim>\<open>str.islower\<close> and
  \<^verbatim>\<open>str.isdigit\<close>). The password \<^verbatim>\<open>SecurePass123\<close> passes the validation, and
  \<open>create_user\<close> never fails with \<open>WeakPasswordError\<close> on it.
\<close>

theorem weak_password_rejected:
  assumes "validate_username username = Inr ()" and "validate_email email = Inr ()"
  shows "(length password < 12 \<or> \<not> (\<exists>c \<in> set password. isupper c)
          \<or> \<not> (\<exists>c \<in> set password. islower c) \<or> \<not> (\<exists>c \<in> set password. isdigit c) \<longrightarrow>
          (\<exists>msg. create_user self username email password st = (Inl (WeakPasswordError msg), st)))
       \<and> validate_password ''SecurePass123'' = Inr ()
       \<and> (\<forall>msg. fst (create_user self username email ''SecurePass123'' st)
                  \<noteq> Inl (WeakPasswordError msg))"
proof (intro conjI impI allI)
  assume "length password < 12 \<or> \<not> (\<exists>c \<in> set password. isupper c)
     \<or> \<not> (\<exists>c \<in> set password. islower c) \<or> \<not> (\<exists>c \<in> set password. isdigit c)"
  then obtain msg where "validate_password password = Inl (WeakPasswordError msg)"
    using validate_password_weak by blast
  with assms have "create_user self username email password st = (Inl (WeakPasswordError msg), st)"
    by (simp add: create_user_def)
  then show "\<exists>msg. create_user self username email password st = (Inl (WeakPasswordError msg), st)"
    by blast
next
  show "validate_password ''SecurePass123'' = Inr ()"
    by (rule validate_password_SecurePass123)
next
  fix msg
  show "fst (create_user self username email ''SecurePass123'' st) \<noteq> Inl (WeakPasswordError msg)"
    by (rule create_user_not_weak [OF assms validate_password_SecurePass123])
qed

theorem weak_password_rejected_witness:
  "validate_username ''johndoe'' = Inr () \<and> validate_email ''john@example.com'' = Inr ()
   \<and> \<not> (\<exists>c \<in> set ''nouppercase123''. isupper c)
   \<and> (\<exists>msg. create_user (user_service (mock_repository expected_user None None) mock_hasher)
         ''johndoe'' ''john@example.com'' ''nouppercase123'' ((), []) =
       (Inl (WeakPasswordError msg), ((), [])))"
proof -
  have no_upper: "\<not> (\<exists>c \<in> set ''nouppercase123''. isupper c)"
    by (simp add: isupper_def ord_def)
  show ?thesis
    using weak_password_rejected [OF validate_username_johndoe validate_email_john,
        where password = "''nouppercase123''"
          and self = "user_service (mock_repository expected_user None None) mock_hasher"
          and st = "((), [])"]
      no_upper validate_username_johndoe validate_email_john
    by blast
qed

subsection \<open>Lookups\<close>

text \<open>
  C8. When the repository's lookup returns, \<open>get_user\<close> and \<open>authenticate\<close> return
  what it returned: absent when it is absent, the record itself otherwise, after that one
  collaborator call. The result of \<open>authenticate\<close> is the same for every password.
\<close>

theorem lookups_pass_through:
  "(find_by_id (user_repository self) user_id w = (Inr found, w1) \<longrightarrow>
      get_user self user_id (w, calls) = (Inr found, (w1, calls @ [Call_find_by_id user_id])))
   \<and> (find_by_email (user_repository self) email w = (Inr found', w1') \<longrightarrow>
      authenticate self email password (w, calls) =
        (Inr found', (w1', calls @ [Call_find_by_email email])))
   \<and> authenticate self email password st = authenticate self email password' st"
  by (simp add: get_user_def authenticate_def call_find_by_id_def call_find_by_email_def)

theorem lookups_pass_through_witness:
  "get_user (user_service (mock_repository expected_user (Some expected_user) None) mock_hasher)
     123 ((), []) = (Inr (Some expected_user), ((), [Call_find_by_id 123]))
   \<and> authenticate (user_service (mock_repository expected_user None None) mock_hasher)
     ''nonexistent@example.com'' ''password'' ((), []) =
       (Inr None, ((), [Call_find_by_email ''nonexistent@example.com'']))"
  using lookups_pass_through [where
      self = "user_service (mock_repository expected_user (Some expected_user) None) mock_hasher"
      and user_id = 123 and w = "()" and found = "Some expected_user" and ?w1.0 = "()"
      and calls = "[]"]
    lookups_pass_through [where
      self = "user_service (mock_repository expected_user None None) mock_hasher"
      and email = "''nonexistent@example.com''" and w = "()" and found' = None and w1' = "()"
      and calls = "[]" and password = "''password''"]
  by (simp add: mock_eval)

subsection \<open>A newline at the end of a username or an email\<close>

text \<open>
  C3. The username \<^verbatim>\<open>abc\<close> followed by a newline contains a character that is
  neither a letter, a digit nor an underscore, and 30 letters followed by a newline are
  31 characters. \<open>validate_username\<close> accepts both, since \<^verbatim>\<open>$\<close> also matches
  before a newline that ends the subject: with the first one \<open>create_user\<close> goes on to
  the repository and saves it, instead of failing with \<open>InvalidUsernameError\<close>.
\<close>

theorem username_trailing_newline:
  "create_user (user_service (mock_repository expected_user None None) mock_hasher)
     ''abc\<newline>'' ''john@example.com'' ''SecurePass123'' ((), []) =
     (Inr expected_user,
      ((), [Call_find_by_email ''john@example.com'', Call_hash ''SecurePass123'',
            Call_save ''abc\<newline>'' ''john@example.com'' ''hashed_password_123'']))
   \<and> length ''aaaaaaaaaaaaaaaaaaaaaaaaaaaaaa\<newline>'' = 31
   \<and> validate_username ''aaaaaaaaaaaaaaaaaaaaaaaaaaaaaa\<newline>'' = Inr ()"
  by (simp add: create_user_valid [OF validate_username_trailing_newline validate_email_john
        validate_password_SecurePass123] call_find_by_email_def call_hash_def call_save_def
      mock_eval)
    (simp add: validate_username_def regex_eval)

text \<open>
  C5. The email \<^verbatim>\<open>john@example.com\<close> followed by a newline contains whitespace, and
  the last label of its domain is not made of letters only. \<open>validate_email\<close> accepts
  it, for the same reason: \<open>create_user\<close> looks it up and saves it, instead of failing
  with \<open>InvalidEmailError\<close>.
\<close>

theorem email_trailing_newline:
  "create_user (user_service (mock_repository expected_user None None) mock_hasher)
     ''johndoe'' ''john@example.com\<newline>'' ''SecurePass123'' ((), []) =
     (Inr expected_user,
      ((), [Call_find_by_email ''john@example.com\<newline>'', Call_hash ''SecurePass123'',
            Call_save ''johndoe'' ''john@example.com\<newline>'' ''hashed_password_123'']))"
  by (simp add: create_user_valid [OF validate_username_johndoe validate_email_trailing_newline
        validate_password_SecurePass123] call_find_by_email_def call_hash_def call_save_def
      mock_eval)

section \<open>Properties of the token service\<close>

lemma refresh_token_decoded:
  assumes "jwt_decode jwt token SECRET_KEY [ALGORITHM] True now = Inr claims"
  shows "refresh_token jwt now \<lparr>scheme = sch, credentials = token\<rparr> =
     (if dict_get claims ''type'' \<noteq> JStr ''refresh'' then
        Inl (HTTPException 401 ''Invalid token type'' None)
      else
        Inr \<lparr>access_token = create_access_token jwt now (dict_get claims ''sub''),
             refresh_token' = token, token_type = ''bearer'', expires_in = 900\<rparr>)"
  using assms
  by (simp add: refresh_token_def decode_token_def HTTP_401_UNAUTHORIZED_def
      ACCESS_TOKEN_EXPIRE_MINUTES_def)

lemma get_current_user_decoded:
  assumes "jwt_decode jwt token SECRET_KEY [ALGORITHM] True now = Inr claims"
  shows "get_current_user jwt now \<lparr>scheme = sch, credentials = token\<rparr> =
     (if dict_get claims ''type'' \<noteq> JStr ''access'' then
        Inl (HTTPException 401 ''Invalid token type'' None)
      else if dict_get claims ''sub'' = JNone then
        Inl (HTTPException 401 ''Could not validate credentials'' None)
      else Inr (dict_get claims ''sub''))"
  using assms
  by (simp add: get_current_user_def decode_token_def HTTP_401_UNAUTHORIZED_def)

lemma create_access_token_payload:
  "create_access_token jwt now user_id =
     jwt_encode jwt
       [(''sub'', user_id), (''exp'', JInt (now + timedelta_minutes ACCESS_TOKEN_EXPIRE_MINUTES)),
        (''iat'', JInt now), (''type'', JStr ''access'')]
       SECRET_KEY ALGORITHM"
  by (simp add: create_access_token_def)

text \<open>
  With any implementation of the library, a decoding failure other than expiry leaves
  \<open>decode_token\<close>, and so both verifications, with the uncaught \<^verbatim>\<open>AttributeError\<close>;
  expiry gives the 401 ``Token has expired''.
\<close>

lemma decode_token_failure:
  assumes "jwt_decode jwt token SECRET_KEY [ALGORITHM] True now = Inl e"
    and "e \<noteq> ExpiredSignatureError"
  shows "decode_token jwt now token = Inl (Uncaught ''AttributeError'')"
  using assms by (cases e) (simp_all add: decode_token_def)

lemma verification_failure:
  assumes "jwt_decode jwt token SECRET_KEY [ALGORITHM] True now = Inl e"
    and "e \<noteq> ExpiredSignatureError"
  shows "get_current_user jwt now \<lparr>scheme = sch, credentials = token\<rparr> =
           Inl (Uncaught ''AttributeError'')"
    and "refresh_token jwt now \<lparr>scheme = sch, credentials = token\<rparr> =
           Inl (Uncaught ''AttributeError'')"
  by (simp_all add: get_current_user_def refresh_token_def decode_token_failure [OF assms])

lemma verification_expired:
  assumes "jwt_decode jwt token SECRET_KEY [ALGORITHM] True now = Inl ExpiredSignatureError"
  shows "get_current_user jwt now \<lparr>scheme = sch, credentials = token\<rparr> =
           Inl (HTTPException 401 ''Token has expired''
                  (Some [(''WWW-Authenticate'', ''Bearer'')]))"
    and "refresh_token jwt now \<lparr>scheme = sch, credentials = token\<rparr> =
           Inl (HTTPException 401 ''Token has expired''
                  (Some [(''WWW-Authenticate'', ''Bearer'')]))"
  using assms
  by (simp_all add: get_current_user_def refresh_token_def decode_token_def
      HTTP_401_UNAUTHORIZED_def)

subsection \<open>The token codec\<close>

lemmas claims_eval = validate_claims_def validate_iat_def validate_nbf_def validate_exp_def
  validate_aud_def validate_sub_def validate_jti_def dict_get_def

lemma spec_decode_wrong_key:
  "key \<noteq> SECRET_KEY \<Longrightarrow>
   jwt_decode spec_jwt (Signed claims key ALGORITHM) SECRET_KEY [ALGORITHM] True now =
     Inl InvalidSignatureError"
  by (simp add: spec_jwt_def spec_decode_def)

lemma spec_decode_malformed:
  "jwt_decode spec_jwt (Malformed x) SECRET_KEY [ALGORITHM] True now = Inl DecodeError"
  by (simp add: spec_jwt_def spec_decode_def)

lemma spec_decode_access:
  "jwt_decode spec_jwt (create_access_token spec_jwt t0 (JStr s)) SECRET_KEY [ALGORITHM] True now =
     (if now < t0 then Inl ImmatureSignatureError
      else if t0 + timedelta_minutes ACCESS_TOKEN_EXPIRE_MINUTES \<le> now then
        Inl ExpiredSignatureError
      else Inr [(''sub'', JStr s),
                (''exp'', JInt (t0 + timedelta_minutes ACCESS_TOKEN_EXPIRE_MINUTES)),
                (''iat'', JInt t0), (''type'', JStr ''access'')])"
  by (simp add: spec_jwt_def spec_decode_def spec_encode_def create_access_token_def claims_eval)

lemma spec_decode_refresh:
  "jwt_decode spec_jwt (create_refresh_token spec_jwt t0 (JStr s)) SECRET_KEY [ALGORITHM] True now =
     (if now < t0 then Inl ImmatureSignatureError
      else if t0 + timedelta_days REFRESH_TOKEN_EXPIRE_DAYS \<le> now then
        Inl ExpiredSignatureError
      else Inr [(''sub'', JStr s),
                (''exp'', JInt (t0 + timedelta_days REFRESH_TOKEN_EXPIRE_DAYS)),
                (''iat'', JInt t0), (''type'', JStr ''refresh'')])"
  by (simp add: spec_jwt_def spec_decode_def spec_encode_def create_refresh_token_def claims_eval)

text \<open>
  The rest of the round trip, with this codec: an access token issued for \<open>s\<close> at
  \<open>t0\<close> yields \<open>s\<close> until its lifetime has elapsed and fails with ``Token has
  expired'' from then on; within its lifetime it is refused as a refresh token for its
  kind. Before \<open>t0\<close> the library refuses it, and the failure is the uncaught one.
\<close>

lemma access_token_round_trip:
  assumes "t0 \<le> now" and "now < t0 + timedelta_minutes ACCESS_TOKEN_EXPIRE_MINUTES"
  shows "get_current_user spec_jwt now
           \<lparr>scheme = sch, credentials = create_access_token spec_jwt t0 (JStr s)\<rparr> = Inr (JStr s)"
    and "refresh_token spec_jwt now
           \<lparr>scheme = sch, credentials = create_access_token spec_jwt t0 (JStr s)\<rparr> =
         Inl (HTTPException 401 ''Invalid token type'' None)"
proof -
  have "jwt_decode spec_jwt (create_access_token spec_jwt t0 (JStr s)) SECRET_KEY [ALGORITHM]
          True now =
        Inr [(''sub'', JStr s),
             (''exp'', JInt (t0 + timedelta_minutes ACCESS_TOKEN_EXPIRE_MINUTES)),
             (''iat'', JInt t0), (''type'', JStr ''access'')]"
    using assms by (simp add: spec_decode_access)
  then show "get_current_user spec_jwt now
           \<lparr>scheme = sch, credentials = create_access_token spec_jwt t0 (JStr s)\<rparr> = Inr (JStr s)"
    and "refresh_token spec_jwt now
           \<lparr>scheme = sch, credentials = create_access_token spec_jwt t0 (JStr s)\<rparr> =
         Inl (HTTPException 401 ''Invalid token type'' None)"
    by (simp_all add: get_current_user_decoded refresh_token_decoded dict_get_def)
qed

lemma access_token_expired:
  assumes "t0 + timedelta_minutes ACCESS_TOKEN_EXPIRE_MINUTES \<le> now"
  shows "get_current_user spec_jwt now
           \<lparr>scheme = sch, credentials = create_access_token spec_jwt t0 (JStr s)\<rparr> =
         Inl (HTTPException 401 ''Token has expired''
                (Some [(''WWW-Authenticate'', ''Bearer'')]))"
proof -
  have "jwt_decode spec_jwt (create_access_token spec_jwt t0 (JStr s)) SECRET_KEY [ALGORITHM]
          True now = Inl ExpiredSignatureError"
    using assms
    by (simp add: spec_decode_access timedelta_minutes_def ACCESS_TOKEN_EXPIRE_MINUTES_def)
  then show ?thesis by (rule verification_expired)
qed

lemma access_token_early:
  assumes "now < t0"
  shows "get_current_user spec_jwt now
           \<lparr>scheme = sch, credentials = create_access_token spec_jwt t0 (JStr s)\<rparr> =
         Inl (Uncaught ''AttributeError'')"
proof -
  have "jwt_decode spec_jwt (create_access_token spec_jwt t0 (JStr s)) SECRET_KEY [ALGORITHM]
          True now = Inl ImmatureSignatureError"
    using assms by (simp add: spec_decode_access)
  then show ?thesis by (rule verification_failure) simp
qed

text \<open>
  C2. At time 100, a token of the expected kind that has not expired but is signed with
  a key other than \<^verbatim>\<open>SECRET_KEY\<close>, or a malformed token, has an invalid signature or
  format. \<open>get_current_user\<close> and \<open>refresh_token\<close> do not fail with a 401 on it (the
  spec's Invalid, which the second handler of \<^verbatim>\<open>decode_token\<close> is written to raise):
  they end with the \<^verbatim>\<open>AttributeError\<close> that the handler's own class expression
  raises.
\<close>

theorem invalid_signature_uncaught:
  "get_current_user spec_jwt 100
     \<lparr>scheme = ''Bearer'',
      credentials = Signed [(''sub'', JStr ''user_123''), (''exp'', JInt 900), (''iat'', JInt 0),
                            (''type'', JStr ''access'')] ''another key'' ALGORITHM\<rparr> =
     Inl (Uncaught ''AttributeError'')
   \<and> refresh_token spec_jwt 100
     \<lparr>scheme = ''Bearer'',
      credentials = Signed [(''sub'', JStr ''user_123''), (''exp'', JInt 604800),
                            (''iat'', JInt 0), (''type'', JStr ''refresh'')]
                      ''another key'' ALGORITHM\<rparr> =
     Inl (Uncaught ''AttributeError'')
   \<and> get_current_user spec_jwt 100 \<lparr>scheme = ''Bearer'', credentials = Malformed ''abc''\<rparr> =
     Inl (Uncaught ''AttributeError'')
   \<and> refresh_token spec_jwt 100 \<lparr>scheme = ''Bearer'', credentials = Malformed ''abc''\<rparr> =
     Inl (Uncaught ''AttributeError'')"
proof -
  have key: "''another key'' \<noteq> SECRET_KEY"
    by (simp add: SECRET_KEY_def)
  show ?thesis
    by (simp add: verification_failure [OF spec_decode_wrong_key [OF key]]
        verification_failure [OF spec_decode_malformed])
qed

text \<open>
  C9. For every token that \<^verbatim>\<open>jwt.decode\<close> accepts (valid and not expired), with any
  implementation of the library: if its kind is \<^verbatim>\<open>refresh\<close> and its subject is \<open>s\<close>,
  \<open>refresh_token\<close> returns a new access token, the encoding of a payload of kind
  \<^verbatim>\<open>access\<close> with subject \<open>s\<close> that expires after the access lifetime, together with
  the presented refresh token itself; if its kind is \<^verbatim>\<open>access\<close>, \<open>refresh_token\<close>
  fails with the 401 ``Invalid token type''.
\<close>

theorem refresh_flow:
  assumes "jwt_decode jwt token SECRET_KEY [ALGORITHM] True now = Inr claims"
  shows "(dict_get claims ''type'' = JStr ''refresh'' \<and> dict_get claims ''sub'' = s \<longrightarrow>
            refresh_token jwt now \<lparr>scheme = sch, credentials = token\<rparr> =
              Inr \<lparr>access_token =
                     jwt_encode jwt
                       [(''sub'', s),
                        (''exp'', JInt (now + timedelta_minutes ACCESS_TOKEN_EXPIRE_MINUTES)),
                        (''iat'', JInt now), (''type'', JStr ''access'')]
                       SECRET_KEY ALGORITHM,
                   refresh_token' = token, token_type = ''bearer'', expires_in = 900\<rparr>)
       \<and> (dict_get claims ''type'' = JStr ''access'' \<longrightarrow>
            refresh_token jwt now \<lparr>scheme = sch, credentials = token\<rparr> =
              Inl (HTTPException 401 ''Invalid token type'' None))"
  by (simp add: refresh_token_decoded [OF assms] create_access_token_payload)

theorem refresh_flow_witness:
  "refresh_token spec_jwt 100
      \<lparr>scheme = ''Bearer'', credentials = create_refresh_token spec_jwt 0 (JStr ''user_123'')\<rparr> =
     Inr \<lparr>access_token =
            Signed [(''sub'', JStr ''user_123''), (''exp'', JInt 1000), (''iat'', JInt 100),
                    (''type'', JStr ''access'')] SECRET_KEY ALGORITHM,
          refresh_token' = create_refresh_token spec_jwt 0 (JStr ''user_123''),
          token_type = ''bearer'', expires_in = 900\<rparr>
   \<and> refresh_token spec_jwt 100
      \<lparr>scheme = ''Bearer'', credentials = create_access_token spec_jwt 0 (JStr ''user_123'')\<rparr> =
     Inl (HTTPException 401 ''Invalid token type'' None)"
proof -
  have r: "jwt_decode spec_jwt (create_refresh_token spec_jwt 0 (JStr ''user_123''))
             SECRET_KEY [ALGORITHM] True 100 =
           Inr [(''sub'', JStr ''user_123''), (''exp'', JInt 604800), (''iat'', JInt 0),
                (''type'', JStr ''refresh'')]"
    by (simp add: spec_decode_refresh timedelta_days_def REFRESH_TOKEN_EXPIRE_DAYS_def)
  have a: "jwt_decode spec_jwt (create_access_token spec_jwt 0 (JStr ''user_123''))
             SECRET_KEY [ALGORITHM] True 100 =
           Inr [(''sub'', JStr ''user_123''), (''exp'', JInt 900), (''iat'', JInt 0),
                (''type'', JStr ''access'')]"
    by (simp add: spec_decode_access timedelta_minutes_def ACCESS_TOKEN_EXPIRE_MINUTES_def)
  show ?thesis
    using refresh_flow [OF r, where s = "JStr ''user_123''" and sch = "''Bearer''"]
      refresh_flow [OF a, where sch = "''Bearer''"]
    by (simp add: dict_get_def spec_jwt_def spec_encode_def timedelta_minutes_def
        ACCESS_TOKEN_EXPIRE_MINUTES_def)
qed

text \<open>
  C10. For every token that \<^verbatim>\<open>jwt.decode\<close> accepts and whose payload has no
  \<^verbatim>\<open>sub\<close> claim: if its kind is \<^verbatim>\<open>refresh\<close>, \<open>refresh_token\<close> accepts it and
  issues an access token whose subject is \<^verbatim>\<open>None\<close>; if its kind is \<^verbatim>\<open>access\<close>,
  \<open>get_current_user\<close> rejects it with the 401 ``Could not validate credentials''. The
  check for a missing subject is made on the access path only.
\<close>

theorem missing_subject:
  assumes "jwt_decode jwt token SECRET_KEY [ALGORITHM] True now = Inr claims"
    and "map_of claims ''sub'' = None"
  shows "(dict_get claims ''type'' = JStr ''refresh'' \<longrightarrow>
            refresh_token jwt now \<lparr>scheme = sch, credentials = token\<rparr> =
              Inr \<lparr>access_token =
                     jwt_encode jwt
                       [(''sub'', JNone),
                        (''exp'', JInt (now + timedelta_minutes ACCESS_TOKEN_EXPIRE_MINUTES)),
                        (''iat'', JInt now), (''type'', JStr ''access'')]
                       SECRET_KEY ALGORITHM,
                   refresh_token' = token, token_type = ''bearer'', expires_in = 900\<rparr>)
       \<and> (dict_get claims ''type'' = JStr ''access'' \<longrightarrow>
            get_current_user jwt now \<lparr>scheme = sch, credentials = token\<rparr> =
              Inl (HTTPException 401 ''Could not validate credentials'' None))"
proof -
  have "dict_get claims ''sub'' = JNone"
    using assms(2) by (simp add: dict_get_def)
  then show ?thesis
    by (simp add: refresh_token_decoded [OF assms(1)] get_current_user_decoded [OF assms(1)]
        create_access_token_payload)
qed

theorem missing_subject_witness:
  "refresh_token spec_jwt 100
      \<lparr>scheme = ''Bearer'',
       credentials = Signed [(''exp'', JInt 1000), (''type'', JStr ''refresh'')]
                       SECRET_KEY ALGORITHM\<rparr> =
     Inr \<lparr>access_token =
            Signed [(''sub'', JNone), (''exp'', JInt 1000), (''iat'', JInt 100),
                    (''type'', JStr ''access'')] SECRET_KEY ALGORITHM,
          refresh_token' = Signed [(''exp'', JInt 1000), (''type'', JStr ''refresh'')]
                             SECRET_KEY ALGORITHM,
          token_type = ''bearer'', expires_in = 900\<rparr>
   \<and> get_current_user spec_jwt 100
      \<lparr>scheme = ''Bearer'',
       credentials = Signed [(''exp'', JInt 1000), (''type'', JStr ''access'')]
                       SECRET_KEY ALGORITHM\<rparr> =
     Inl (HTTPException 401 ''Could not validate credentials'' None)"
proof -
  have r: "jwt_decode spec_jwt (Signed [(''exp'', JInt 1000), (''type'', JStr ''refresh'')]
             SECRET_KEY ALGORITHM) SECRET_KEY [ALGORITHM] True 100 =
           Inr [(''exp'', JInt 1000), (''type'', JStr ''refresh'')]"
    by (simp add: spec_jwt_def spec_decode_def claims_eval)
  have a: "jwt_decode spec_jwt (Signed [(''exp'', JInt 1000), (''type'', JStr ''access'')]
             SECRET_KEY ALGORITHM) SECRET_KEY [ALGORITHM] True 100 =
           Inr [(''exp'', JInt 1000), (''type'', JStr ''access'')]"
    by (simp add: spec_jwt_def spec_decode_def claims_eval)
  have r2: "map_of [(''exp'', JInt 1000), (''type'', JStr ''refresh'')] ''sub'' = None"
    by simp
  have a2: "map_of [(''exp'', JInt 1000), (''type'', JStr ''access'')] ''sub'' = None"
    by simp
  show ?thesis
    using missing_subject [OF r r2, where sch = "''Bearer''"]
      missing_subject [OF a a2, where sch = "''Bearer''"]
    by (simp add: dict_get_def spec_jwt_def spec_encode_def timedelta_minutes_def
        ACCESS_TOKEN_EXPIRE_MINUTES_def)
qed

end
